theory Spec2Isabelle
  imports Complex_Main
begin

section \<open>Data model of \<open>ModelLoader.tsx\<close>\<close>

text \<open>
  The development embeds the \<open>Editor\<close> and \<open>Renderer\<close> components of
  \<open>src/components/ModelLoader.tsx\<close>.

  JavaScript numbers are modelled as the reals: every scale factor below is an ideal
  quotient, and rounding of IEEE doubles is not modelled. The width and height of an
  \<open>ImageBitmap\<close> are unsigned integers, hence \<open>nat\<close>. In JavaScript a division by
  zero yields \<open>Infinity\<close>, in HOL it yields \<open>0\<close>; the two agree wherever the divisor is
  positive, so every theorem about a quotient assumes a positive image extent.

  Field names of the source objects that would clash with each other (\<open>width\<close>,
  \<open>height\<close>, \<open>x\<close>, \<open>y\<close>, \<open>scale\<close>, \<open>uploadScale\<close>) carry the prefix of their
  object: \<open>ms_\<close> for the \<open>modelScale\<close> literal, \<open>mc_\<close> for a click handed to
  \<open>modelData\<close>, \<open>md_\<close> for the argument of \<open>modelData\<close>, \<open>click_\<close> for an
  entry of the \<open>clicks\<close> state, \<open>ev_\<close> for \<open>event.data\<close>.
\<close>

record ImageBitmap =
  width :: nat
  height :: nat

record Tensor =
  data :: "real list"
  dims :: "nat list"

record Click =
  click_x :: real
  click_y :: real

datatype Mode = Edit | Preview

section \<open>Scale factors\<close>

definition UPLOAD_IMAGE_SIZE :: real where
  "UPLOAD_IMAGE_SIZE = 1024"

text \<open>Line 73: \<open>UPLOAD_IMAGE_SIZE / Math.max(bitmap.height, bitmap.width)\<close>.\<close>

definition uploadScale :: "ImageBitmap \<Rightarrow> real" where
  "uploadScale bitmap = UPLOAD_IMAGE_SIZE / real (max (height bitmap) (width bitmap))"

text \<open>
  Lines 88--95 (the effect of \<open>Editor\<close>) and lines 206--213 (\<open>onMaskClick\<close>) compute
  the local \<open>scale\<close> by the same text; both are this function.
\<close>

definition IMAGE_SIZE :: real where
  "IMAGE_SIZE = 500"

definition previewScale :: "ImageBitmap \<Rightarrow> real" where
  "previewScale bitmap =
     (let w = width bitmap;
          h = height bitmap;
          d = real (min w h);
          scale = IMAGE_SIZE / d
      in if d * scale > 1333 then 1333 / d else scale)"

text \<open>Lines 202--204: the \<open>svgScale\<close> property handed to \<open>Renderer\<close>.\<close>

definition svgScale :: "ImageBitmap \<Rightarrow> real" where
  "svgScale bitmap = real (max (height bitmap) (width bitmap)) / UPLOAD_IMAGE_SIZE"

text \<open>Lines 96--104: the \<open>modelScale\<close> object literal.\<close>

record ModelScale =
  ms_onnxScale :: real
  ms_maskWidth :: real
  ms_maskHeight :: real
  ms_scale :: real
  ms_uploadScale :: real
  ms_width :: nat
  ms_height :: nat

definition modelScale :: "ImageBitmap \<Rightarrow> ModelScale" where
  "modelScale bitmap =
     (let w = width bitmap;
          h = height bitmap;
          scale = previewScale bitmap
      in \<lparr> ms_onnxScale = scale / uploadScale bitmap,
           ms_maskWidth = real w * uploadScale bitmap,
           ms_maskHeight = real h * uploadScale bitmap,
           ms_scale = scale,
           ms_uploadScale = uploadScale bitmap,
           ms_width = w,
           ms_height = h \<rparr>)"

section \<open>The refinement state of \<open>Editor\<close>\<close>

text \<open>
  The React state of \<open>Editor\<close> (lines 65--68); \<open>output'\<close> is the state
  \<open>output\<close>, a word Isabelle reserves. The \<open>rendered\<close> blob (line 69) only feeds
  the Copy and Download buttons and is left out.
\<close>

record Editor =
  output' :: "Tensor option"
  predMasks :: "Tensor list"
  clicks :: "Click list"
  mode :: Mode

definition initial :: Editor where
  "initial = \<lparr> output' = None, predMasks = [], clicks = [], mode = Edit \<rparr>"

text \<open>The argument of \<open>modelData\<close> (lines 110--122) and the clicks inside it.\<close>

record ModelClick =
  mc_x :: real
  mc_y :: real
  mc_width :: "real option"
  mc_height :: "real option"
  mc_clickType :: nat

record ModelDataArgs =
  md_clicks :: "ModelClick list"
  md_tensor :: Tensor
  md_modelScale :: ModelScale
  md_last_pred_mask :: "Tensor option"

text \<open>What the message listener reads of \<open>event.data\<close> (lines 77--78).\<close>

record MessageData =
  ev_output :: "Tensor option"
  ev_mask :: Tensor

record Frame =
  frame_width :: real
  frame_height :: real

text \<open>What the click handler of the canvas reads (lines 302--304).\<close>

record MouseEvent =
  clientX :: real
  clientY :: real
  rect_left :: real
  rect_top :: real

text \<open>
  Everything \<open>Editor\<close> receives from outside: its properties \<open>tensor\<close> and \<open>bitmap\<close>,
  the frame size of \<open>FrameSizeContext\<close>, the iframe behind \<open>sandboxRef\<close> and
  \<open>modelData\<close>.
  \<open>modelData\<close> lives in \<open>lib/models\<close>, which is not part of the sources at hand: it is
  a parameter, returning \<open>None\<close> for a falsy result and the feeds otherwise.
  \<open>sandboxRef\<close> is \<open>None\<close> while \<open>sandboxRef.current\<close> is null, and \<open>Some b\<close>
  once the iframe is mounted, \<open>b\<close> telling whether its \<open>contentWindow\<close> is non-null.
\<close>

record 'f Env =
  modelData :: "ModelDataArgs \<Rightarrow> 'f option"
  sandboxRef :: "bool option"
  tensor :: Tensor
  bitmap :: ImageBitmap
  frame :: Frame

text \<open>Lines 110--122: the object handed to \<open>modelData\<close>.\<close>

definition requestArgs :: "'f Env \<Rightarrow> Editor \<Rightarrow> ModelDataArgs" where
  "requestArgs env st =
     \<lparr> md_clicks =
         map (\<lambda>click. \<lparr> mc_x = click_x click, mc_y = click_y click,
                         mc_width = None, mc_height = None, mc_clickType = 1 \<rparr>)
           (clicks st),
       md_tensor = tensor env,
       md_modelScale = modelScale (bitmap env),
       md_last_pred_mask =
         (if length (predMasks st) > 0
          then Some (predMasks st ! (length (predMasks st) - 1))
          else None) \<rparr>"

text \<open>
  Lines 84--127: the effect. It returns the state after its \<open>setOutput\<close> and
  \<open>setPredMasks\<close> calls and the list of messages posted to the iframe.
\<close>

definition editorEffect :: "'f Env \<Rightarrow> Editor \<Rightarrow> Editor \<times> 'f list" where
  "editorEffect env st =
     (case sandboxRef env of
        None \<Rightarrow> (st, [])
      | Some contentWindow \<Rightarrow>
          if length (clicks st) = 0
          then (st\<lparr> output' := None, predMasks := [] \<rparr>, [])
          else (case modelData env (requestArgs env st) of
                  None \<Rightarrow> (st, [])
                | Some feeds \<Rightarrow> (st, if contentWindow then [feeds] else [])))"

text \<open>Lines 76--79: the message listener.\<close>

definition listener :: "MessageData \<Rightarrow> Editor \<Rightarrow> Editor" where
  "listener d st = st\<lparr> output' := ev_output d, predMasks := predMasks st @ [ev_mask d] \<rparr>"

text \<open>
  Line 158: the Undo button. \<open>clicks.slice(0, clicks.length - 1)\<close> of an empty array
  is the empty array, as is \<open>take (0 - 1)\<close> on \<open>nat\<close>.
\<close>

definition undo :: "Editor \<Rightarrow> Editor" where
  "undo st = st\<lparr> clicks := take (length (clicks st) - 1) (clicks st) \<rparr>"

text \<open>Lines 193--196.\<close>

definition scaleToFit :: "'f Env \<Rightarrow> real" where
  "scaleToFit env =
     min (frame_width (frame env) / real (width (bitmap env)))
         (frame_height (frame env) / real (height (bitmap env)))"

text \<open>Lines 205--218.\<close>

definition onMaskClick :: "'f Env \<Rightarrow> real \<Rightarrow> real \<Rightarrow> Editor \<Rightarrow> Editor" where
  "onMaskClick env x y st =
     (let scale = previewScale (bitmap env)
      in st\<lparr> clicks := clicks st @
                [\<lparr> click_x = (x * scale) / scaleToFit env,
                   click_y = (y * scale) / scaleToFit env \<rparr>] \<rparr>)"

text \<open>
  Lines 300--306: the click handler of the canvas. \<open>None\<close> is the early return,
  \<open>Some (x, y)\<close> the call \<open>onMaskClick(x, y)\<close>.
\<close>

definition canvasOnClick :: "Mode \<Rightarrow> MouseEvent \<Rightarrow> (real \<times> real) option" where
  "canvasOnClick m e =
     (if m \<noteq> Edit then None
      else Some (clientX e - rect_left e, clientY e - rect_top e))"

text \<open>
  One user or collaborator event and the React update it causes. The effect of lines
  84--127 depends on \<open>[tensor, bitmap, clicks, sandboxRef.current]\<close>: within a session
  it runs again exactly after a render with a new \<open>clicks\<close> array, that is after
  \<open>setClicks\<close>, and then sees the \<open>predMasks\<close> of that render. A disabled button
  (lines 146, 151, 159) fires no handler.
\<close>

datatype Event =
    CanvasClick MouseEvent
  | UndoButton
  | EditButton
  | PreviewButton
  | Message MessageData

fun step :: "'f Env \<Rightarrow> Editor \<Rightarrow> Event \<Rightarrow> Editor \<times> 'f list" where
  "step env st (CanvasClick e) =
     (case canvasOnClick (mode st) e of
        None \<Rightarrow> (st, [])
      | Some (x, y) \<Rightarrow> editorEffect env (onMaskClick env x y st))"
| "step env st UndoButton =
     (if length (clicks st) = 0 then (st, []) else editorEffect env (undo st))"
| "step env st EditButton =
     (if mode st = Edit then (st, []) else (st\<lparr> mode := Edit \<rparr>, []))"
| "step env st PreviewButton =
     (if mode st = Preview then (st, []) else (st\<lparr> mode := Preview \<rparr>, []))"
| "step env st (Message d) = (listener d st, [])"

text \<open>A session: the state and every message posted so far, in order.\<close>

fun run :: "'f Env \<Rightarrow> Editor \<times> 'f list \<Rightarrow> Event list \<Rightarrow> Editor \<times> 'f list" where
  "run env s [] = s"
| "run env s (ev # evs) =
     run env (fst (step env (fst s) ev), snd s @ snd (step env (fst s) ev)) evs"

section \<open>The drawing of \<open>Renderer\<close>\<close>

text \<open>
  Lines 248--275 as the list of canvas calls they make. \<open>traceOnnxMaskToSVG\<close> lives
  in \<open>lib/mask_utils\<close>, which is not part of the sources at hand, and is a parameter;
  \<open>tensor.dims[k]\<close> is \<open>undefined\<close> beyond the end of the array. The flag \<open>ctx\<close>
  tells whether the canvas and its 2D context exist (lines 250 and 252). The second
  rendering into an offscreen canvas or blob (lines 277--292) is left out.
\<close>

datatype 'svg CanvasOp =
    Save
  | ClearRect
  | SetTransform real
  | DrawImage
  | FillStyle string
  | GlobalCompositeOperation string
  | Fill 'svg
  | Restore

definition index :: "'a list \<Rightarrow> nat \<Rightarrow> 'a option" where
  "index xs k = (if k < length xs then Some (xs ! k) else None)"

definition rendererEffect ::
  "(real list \<Rightarrow> nat option \<Rightarrow> nat option \<Rightarrow> 'svg) \<Rightarrow> bool \<Rightarrow> Tensor option \<Rightarrow>
   real \<Rightarrow> real \<Rightarrow> Mode \<Rightarrow> 'svg CanvasOp list" where
  "rendererEffect traceOnnxMaskToSVG ctx t canvasScale svgScale' m =
     (if \<not> ctx then []
      else [Save, ClearRect, SetTransform canvasScale, DrawImage] @
        (case t of
           None \<Rightarrow> [Restore]
         | Some tn \<Rightarrow>
             (let svg = traceOnnxMaskToSVG (data tn) (index (dims tn) 1) (index (dims tn) 0);
                  scale = canvasScale * svgScale'
              in [SetTransform scale] @
                 (if m = Edit
                  then [FillStyle ''rgba(0, 0, 255, 0.4)'',
                        GlobalCompositeOperation ''color-dodge'', Fill svg]
                  else [FillStyle ''rgba(0, 0, 0, 1)'',
                        GlobalCompositeOperation ''destination-in'', Fill svg]) @
                 [Restore])))"

text \<open>Lines 198--221: the properties \<open>Editor\<close> hands to \<open>Renderer\<close>.\<close>

definition render ::
  "(real list \<Rightarrow> nat option \<Rightarrow> nat option \<Rightarrow> 'svg) \<Rightarrow> 'f Env \<Rightarrow> Editor \<Rightarrow> 'svg CanvasOp list" where
  "render traceOnnxMaskToSVG env st =
     rendererEffect traceOnnxMaskToSVG True (output' st) (scaleToFit env)
       (svgScale (bitmap env)) (mode st)"

section \<open>Contour extraction and path building\<close>

text \<open>
  \<open>traceOnnxMaskToSVG\<close> (\<open>lib/mask_utils\<close>) is not part of the sources at hand.
  The definitions of this section follow sections 3, 4.2, 4.3 and 7 of the
  specification instead. The threshold is a configuration constant there and a
  parameter here.
\<close>

text \<open>
  Modelled from the spec: the Probability Grid, "a 2D grid of floating-point values
  (one per mask-grid pixel) plus its grid width/height", stored row by row; the data
  type of the missing \<open>lib/mask_utils\<close>.
\<close>

record ProbabilityGrid =
  grid_values :: "real list"
  grid_width :: nat
  grid_height :: nat

datatype error = DimensionMismatch

type_synonym Point = "int \<times> int"
type_synonym Edge = "Point \<times> Point"
type_synonym Contour = "Point list"
type_synonym VectorPath = "(real \<times> real) list list"

text \<open>
  Modelled from the spec: the binary segmentation of the missing Contour Extractor,
  "probability \<open>\<ge>\<close> threshold" against "\<open><\<close> threshold"; a pixel outside the grid is
  not above the threshold.
\<close>

definition above :: "real \<Rightarrow> ProbabilityGrid \<Rightarrow> int \<Rightarrow> int \<Rightarrow> bool" where
  "above threshold g x y =
     (0 \<le> x \<and> x < int (grid_width g) \<and> 0 \<le> y \<and> y < int (grid_height g) \<and>
      grid_values g ! nat (y * int (grid_width g) + x) \<ge> threshold)"

text \<open>
  Modelled from the spec: "a mask pixel's boundary edges" of the missing Contour
  Extractor, in pixel-boundary steps: the sides of a pixel above the threshold whose
  neighbour is not, directed clockwise around the pixel (top, right, bottom, left), so
  that outer boundaries and holes get opposite windings.
\<close>

definition pixelEdges :: "real \<Rightarrow> ProbabilityGrid \<Rightarrow> int \<Rightarrow> int \<Rightarrow> Edge list" where
  "pixelEdges threshold g x y =
     (if above threshold g x y
      then (if above threshold g x (y - 1) then [] else [((x, y), (x + 1, y))]) @
           (if above threshold g (x + 1) y then [] else [((x + 1, y), (x + 1, y + 1))]) @
           (if above threshold g x (y + 1) then [] else [((x + 1, y + 1), (x, y + 1))]) @
           (if above threshold g (x - 1) y then [] else [((x, y + 1), (x, y))])
      else [])"

text \<open>
  Modelled from the spec: the "single linear pass" of the missing Contour Extractor
  over the grid, collecting the boundary edges of every pixel.
\<close>

definition boundaryEdges :: "real \<Rightarrow> ProbabilityGrid \<Rightarrow> Edge list" where
  "boundaryEdges threshold g =
     concat (map (\<lambda>y. concat (map (\<lambda>x. pixelEdges threshold g (int x) (int y))
                                 [0 ..< grid_width g]))
                 [0 ..< grid_height g])"

text \<open>
  Modelled from the spec: the "boundary walk" of the missing Contour Extractor,
  "grouping a mask pixel's boundary edges into connected closed loops". \<open>takeEdge\<close>
  removes the first edge that leaves a point, \<open>walk\<close> follows edges until it is back at
  the start, \<open>traceLoops\<close> starts a new contour while edges remain.
\<close>

fun takeEdge :: "Point \<Rightarrow> Edge list \<Rightarrow> (Edge \<times> Edge list) option" where
  "takeEdge p [] = None"
| "takeEdge p (e # es) =
     (if fst e = p then Some (e, es)
      else (case takeEdge p es of
              None \<Rightarrow> None
            | Some (f, rest) \<Rightarrow> Some (f, e # rest)))"

lemma takeEdge_length:
  "takeEdge p es = Some (f, rest) \<Longrightarrow> length rest < length es"
  by (induction es arbitrary: f rest) (auto split: if_splits option.splits)

function walk :: "Point \<Rightarrow> Point \<Rightarrow> Edge list \<Rightarrow> Point list \<times> Edge list" where
  "walk start cur es =
     (if cur = start then ([], es)
      else (case takeEdge cur es of
              None \<Rightarrow> ([cur], es)
            | Some (e, rest) \<Rightarrow>
                (case walk start (snd e) rest of (ps, r) \<Rightarrow> (cur # ps, r))))"
  by pat_completeness auto
termination
  by (relation "measure (\<lambda>(start, cur, es). length es)") (auto dest: takeEdge_length)

declare walk.simps [simp del]

lemma walk_length: "length (snd (walk start cur es)) \<le> length es"
proof (induction start cur es rule: walk.induct)
  case (1 start cur es)
  show ?case
  proof (cases "cur = start")
    case True
    then show ?thesis by (simp add: walk.simps)
  next
    case False
    show ?thesis
    proof (cases "takeEdge cur es")
      case None
      with False show ?thesis by (simp add: walk.simps)
    next
      case (Some a)
      obtain e rest where a: "a = (e, rest)" by (cases a)
      have "length (snd (walk start (snd e) rest)) \<le> length rest"
        using "1.IH" [OF False] Some a by simp
      moreover have "length rest < length es"
        using Some a takeEdge_length by simp
      ultimately show ?thesis
        using False Some a by (auto simp: walk.simps [of start cur es] split: prod.splits)
    qed
  qed
qed

function traceLoops :: "Edge list \<Rightarrow> Contour list" where
  "traceLoops [] = []"
| "traceLoops (e # es) =
     (case walk (fst e) (snd e) es of (ps, r) \<Rightarrow> (fst e # ps) # traceLoops r)"
  by pat_completeness auto
termination
proof (relation "measure length")
  show "wf (measure length)" by simp
next
  fix e :: Edge and es :: "Edge list" and x :: "Point list \<times> Edge list"
    and ps :: "Point list" and r :: "Edge list"
  assume "(ps, r) = walk (fst e) (snd e) es"
  then have "r = snd (walk (fst e) (snd e) es)"
    by (metis snd_conv)
  then show "(r, e # es) \<in> measure length"
    using walk_length [of "fst e" "snd e" es] by simp
qed

text \<open>
  Modelled from the spec: the missing Contour Extractor as a whole. A grid whose
  number of values differs from its declared width times height "fails fast with a
  \<open>DimensionMismatch\<close> error; no partial contour output".
\<close>

definition extractContours :: "real \<Rightarrow> ProbabilityGrid \<Rightarrow> error + Contour list" where
  "extractContours threshold g =
     (if length (grid_values g) \<noteq> grid_width g * grid_height g
      then Inl DimensionMismatch
      else Inr (traceLoops (boundaryEdges threshold g)))"

text \<open>
  Modelled from the spec: the missing Mask Path Builder, which "applies the transform
  to every contour point, preserving contour grouping and winding"; the transform is
  one multiplication by the target scale \<open>s\<close>.
\<close>

definition buildPath :: "real \<Rightarrow> Contour list \<Rightarrow> VectorPath" where
  "buildPath s cs = map (map (\<lambda>(x, y). (real_of_int x * s, real_of_int y * s))) cs"

text \<open>
  Modelled from the spec: what the missing \<open>traceOnnxMaskToSVG\<close> stands for, the
  Contour Extractor followed by the Mask Path Builder.
\<close>

definition maskPath :: "real \<Rightarrow> real \<Rightarrow> ProbabilityGrid \<Rightarrow> error + VectorPath" where
  "maskPath threshold s g =
     (case extractContours threshold g of
        Inl err \<Rightarrow> Inl err
      | Inr cs \<Rightarrow> Inr (buildPath s cs))"

section \<open>A sample session\<close>

text \<open>
  Concrete inputs for the closed theorems below: a 500 by 500 bitmap shown in a 500 by
  500 frame (so that \<open>scaleToFit\<close> and the preview scale are both 1), a \<open>modelData\<close>
  that returns its argument as the feeds, two canvas clicks, and a stand-in for the
  model behind the iframe, whose reply to a request lists the \<open>x\<close> coordinates of the request's clicks
  as the output tensor and their \<open>y\<close> coordinates as the mask, so that a reply shows
  which click list it was computed from.
\<close>

definition demoEnv :: "ModelDataArgs Env" where
  "demoEnv =
     \<lparr> modelData = Some,
       sandboxRef = Some True,
       tensor = \<lparr> data = [], dims = [1, 256, 64, 64] \<rparr>,
       bitmap = \<lparr> width = 500, height = 500 \<rparr>,
       frame = \<lparr> frame_width = 500, frame_height = 500 \<rparr> \<rparr>"

definition demoClick1 :: MouseEvent where
  "demoClick1 = \<lparr> clientX = 10, clientY = 20, rect_left = 0, rect_top = 0 \<rparr>"

definition demoClick2 :: MouseEvent where
  "demoClick2 = \<lparr> clientX = 30, clientY = 40, rect_left = 0, rect_top = 0 \<rparr>"

definition demoReply :: "ModelDataArgs \<Rightarrow> MessageData" where
  "demoReply args =
     \<lparr> ev_output = Some \<lparr> data = map mc_x (md_clicks args),
                          dims = [length (md_clicks args), 1] \<rparr>,
       ev_mask = \<lparr> data = map mc_y (md_clicks args),
                   dims = [length (md_clicks args), 1] \<rparr> \<rparr>"

text \<open>The request of the session after the first click, with no mask received.\<close>

definition demoRequest1 :: ModelDataArgs where
  "demoRequest1 =
     requestArgs demoEnv (initial\<lparr> clicks := [\<lparr> click_x = 10, click_y = 20 \<rparr>] \<rparr>)"

text \<open>The request after the second click, the reply to the first one received.\<close>

definition demoRequest2 :: ModelDataArgs where
  "demoRequest2 =
     requestArgs demoEnv
       (initial\<lparr> clicks := [\<lparr> click_x = 10, click_y = 20 \<rparr>,
                            \<lparr> click_x = 30, click_y = 40 \<rparr>],
                 output' := ev_output (demoReply demoRequest1),
                 predMasks := [ev_mask (demoReply demoRequest1)] \<rparr>)"

text \<open>The state after both clicks and both replies.\<close>

definition demoState2 :: Editor where
  "demoState2 =
     \<lparr> output' = ev_output (demoReply demoRequest2),
       predMasks = [ev_mask (demoReply demoRequest1), ev_mask (demoReply demoRequest2)],
       clicks = [\<lparr> click_x = 10, click_y = 20 \<rparr>, \<lparr> click_x = 30, click_y = 40 \<rparr>],
       mode = Edit \<rparr>"

text \<open>
  A stand-in for \<open>traceOnnxMaskToSVG\<close> that returns the tensor's data as the path,
  so that a drawing shows which tensor was traced.
\<close>

definition demoTrace :: "real list \<Rightarrow> nat option \<Rightarrow> nat option \<Rightarrow> real list" where
  "demoTrace maskData d1 d0 = maskData"

lemmas demo_defs =
  demoEnv_def demoClick1_def demoClick2_def demoReply_def demoRequest1_def
  demoRequest2_def demoState2_def initial_def requestArgs_def editorEffect_def
  listener_def undo_def scaleToFit_def onMaskClick_def canvasOnClick_def
  previewScale_def IMAGE_SIZE_def uploadScale_def UPLOAD_IMAGE_SIZE_def Let_def

section \<open>Auxiliary facts\<close>

lemma uploadScale_pos:
  assumes "0 < width bm" and "0 < height bm"
  shows "0 < uploadScale bm"
  using assms by (simp add: uploadScale_def UPLOAD_IMAGE_SIZE_def)

text \<open>
  For a positive extent the test \<open>d * scale > 1333\<close> of \<open>previewScale\<close> compares
  \<open>500\<close> with \<open>1333\<close>: the second branch is never taken.
\<close>

lemma previewScale_min:
  assumes "0 < width bm" and "0 < height bm"
  shows "previewScale bm = 500 / real (min (width bm) (height bm))"
  using assms by (simp add: previewScale_def IMAGE_SIZE_def Let_def)

lemma requestArgs_last:
  "md_last_pred_mask (requestArgs env st) =
     (if predMasks st = [] then None else Some (last (predMasks st)))"
  by (simp add: requestArgs_def last_conv_nth)

lemma requestArgs_clicks:
  "map mc_x (md_clicks (requestArgs env st)) = map click_x (clicks st)"
  "map mc_y (md_clicks (requestArgs env st)) = map click_y (clicks st)"
  by (simp_all add: requestArgs_def comp_def)

lemma editorEffect_clicks:
  "clicks (fst (editorEffect env st)) = clicks st"
  by (simp add: editorEffect_def split: option.splits)

lemma editorEffect_nonempty:
  assumes "clicks st \<noteq> []"
  shows "fst (editorEffect env st) = st"
  using assms by (simp add: editorEffect_def split: option.splits)

lemma editorEffect_posted:
  assumes "clicks st \<noteq> []" and "sandboxRef env = Some cw"
  shows "snd (editorEffect env st) =
           (case modelData env (requestArgs env st) of
              None \<Rightarrow> []
            | Some feeds \<Rightarrow> if cw then [feeds] else [])"
  using assms by (simp add: editorEffect_def split: option.splits)

lemma editorEffect_posted_any:
  assumes "f \<in> set (snd (editorEffect env st))"
  shows "modelData env (requestArgs env st) = Some f \<and> clicks st \<noteq> []"
  using assms by (auto simp: editorEffect_def split: option.splits if_splits)

lemma editorEffect_empty:
  assumes "clicks st = []" and "sandboxRef env \<noteq> None"
  shows "editorEffect env st = (st\<lparr> output' := None, predMasks := [] \<rparr>, [])"
  using assms by (auto simp: editorEffect_def split: option.splits)

lemma undo_butlast: "undo st = st\<lparr> clicks := butlast (clicks st) \<rparr>"
  by (simp add: undo_def butlast_conv_take)

text \<open>
  A request posted by a step is what \<open>modelData\<close> returns for the state the step
  ends in; such a step leaves the mask history as it was.
\<close>

lemma step_posted:
  assumes "f \<in> set (snd (step env st ev))"
  shows "modelData env (requestArgs env (fst (step env st ev))) = Some f \<and>
         predMasks (fst (step env st ev)) = predMasks st"
proof -
  have "\<exists>st'. step env st ev = editorEffect env st' \<and> predMasks st' = predMasks st"
    using assms
    by (cases ev) (auto simp: undo_def onMaskClick_def Let_def split: option.splits if_splits)
  then obtain st' where st': "step env st ev = editorEffect env st'" "predMasks st' = predMasks st"
    by blast
  have p: "modelData env (requestArgs env st') = Some f \<and> clicks st' \<noteq> []"
    using assms st'(1) editorEffect_posted_any by metis
  then have "fst (step env st ev) = st'"
    using st'(1) editorEffect_nonempty by metis
  with p st'(2) show ?thesis by simp
qed

lemma run_snoc:
  "run env s (evs @ [ev]) =
     (fst (step env (fst (run env s evs)) ev),
      snd (run env s evs) @ snd (step env (fst (run env s evs)) ev))"
  by (induction evs arbitrary: s) simp_all

text \<open>Only the Undo button can empty a non-empty click list, and the effect then clears.\<close>

lemma emptied_by_undo:
  assumes "sandboxRef env \<noteq> None" and "clicks st \<noteq> []"
      and "clicks (fst (step env st ev)) = []"
  shows "step env st ev = (st\<lparr> clicks := [], output' := None, predMasks := [] \<rparr>, [])"
proof (cases ev)
  case (CanvasClick e)
  with assms(2,3) show ?thesis
    by (auto simp: canvasOnClick_def editorEffect_clicks onMaskClick_def Let_def
        split: if_splits)
next
  case UndoButton
  with assms(2) have s: "step env st ev = editorEffect env (undo st)" by simp
  with assms(3) have e: "clicks (undo st) = []" by (simp add: editorEffect_clicks)
  then have "undo st = st\<lparr> clicks := [] \<rparr>" by (simp add: undo_butlast)
  then show ?thesis
    using editorEffect_empty [OF e assms(1)] by (simp add: s)
next
  case EditButton
  with assms(2,3) show ?thesis by (auto split: if_splits)
next
  case PreviewButton
  with assms(2,3) show ?thesis by (auto split: if_splits)
next
  case (Message d)
  with assms(2,3) show ?thesis by (simp add: listener_def)
qed

lemma below_not_above:
  assumes "length (grid_values g) = grid_width g * grid_height g"
      and "list_all (\<lambda>v. v < threshold) (grid_values g)"
  shows "\<not> above threshold g x y"
proof
  assume a: "above threshold g x y"
  then have x: "0 \<le> x" "x < int (grid_width g)" and y: "0 \<le> y" "y < int (grid_height g)"
    and v: "grid_values g ! nat (y * int (grid_width g) + x) \<ge> threshold"
    by (auto simp: above_def)
  obtain i j where ij: "x = int i" "y = int j"
    using x y by (metis nonneg_int_cases)
  then have lt: "i < grid_width g" "j < grid_height g" using x y by auto
  have "j * grid_width g + i < grid_width g * grid_height g"
  proof -
    have "j * grid_width g + i < j * grid_width g + grid_width g" using lt by simp
    also have "\<dots> = (Suc j) * grid_width g" by simp
    also have "\<dots> \<le> grid_height g * grid_width g"
      using lt by (intro mult_le_mono1) simp
    finally show ?thesis by (simp add: mult.commute)
  qed
  moreover have "nat (y * int (grid_width g) + x) = j * grid_width g + i"
    using ij by (simp add: nat_add_distrib nat_mult_distrib)
  ultimately have "grid_values g ! nat (y * int (grid_width g) + x) \<in> set (grid_values g)"
    using assms(1) by simp
  with assms(2) v show False by (fastforce simp: list_all_iff)
qed

lemma boundaryEdges_below:
  assumes "length (grid_values g) = grid_width g * grid_height g"
      and "list_all (\<lambda>v. v < threshold) (grid_values g)"
  shows "boundaryEdges threshold g = []"
  using below_not_above [OF assms] by (simp add: boundaryEdges_def pixelEdges_def)

section \<open>The claims\<close>

subsection \<open>C1: the ceiling of the preview scale\<close>

text \<open>
  C1 states that the preview scale is 500 divided by the smaller dimension, and that
  where the larger dimension under that scale would exceed 1333 the scale is
  recomputed from the ceiling, so that the larger dimension times the scale is 1333.
  The code tests the smaller dimension \<open>d\<close> against the ceiling, and \<open>d * (500 / d)\<close>
  is 500: for a bitmap of 100 by 1000 pixels the scale stays 5 and the larger
  dimension is scaled to 5000, not to 1333.
\<close>

theorem previewScale_ceiling_missed:
  "previewScale \<lparr> width = 100, height = 1000 \<rparr> = 5 \<and>
   real (max (width \<lparr> width = 100, height = 1000 \<rparr>) (height \<lparr> width = 100, height = 1000 \<rparr>))
     * previewScale \<lparr> width = 100, height = 1000 \<rparr> = 5000 \<and>
   real (max (width \<lparr> width = 100, height = 1000 \<rparr>) (height \<lparr> width = 100, height = 1000 \<rparr>))
     * previewScale \<lparr> width = 100, height = 1000 \<rparr> \<noteq> 1333"
  by (simp add: previewScale_def IMAGE_SIZE_def Let_def)

subsection \<open>C2: stale mask responses\<close>

text \<open>
  C2, as the code has it: a request posted by a step is built from the full click list
  of the state the step ends in, and so carries the length of the list at send time;
  but a response is never checked against anything. At any point of any session the
  listener accepts a message: its output replaces the current output and its mask is
  appended to the mask history, whatever the click list is by then; the click list
  is left as it is and nothing is posted.
\<close>

theorem listener_accepts_every_mask:
  "output' (fst (run env s (evs @ [Message d]))) = ev_output d \<and>
   predMasks (fst (run env s (evs @ [Message d])))
     = predMasks (fst (run env s evs)) @ [ev_mask d] \<and>
   clicks (fst (run env s (evs @ [Message d]))) = clicks (fst (run env s evs)) \<and>
   snd (run env s (evs @ [Message d])) = snd (run env s evs) \<and>
   (\<forall>f \<in> set (snd (step env st ev)).
      modelData env (requestArgs env (fst (step env st ev))) = Some f \<and>
      length (md_clicks (requestArgs env (fst (step env st ev))))
        = length (clicks (fst (step env st ev))))"
proof (intro conjI ballI)
  show "output' (fst (run env s (evs @ [Message d]))) = ev_output d"
    by (simp add: run_snoc listener_def)
  show "predMasks (fst (run env s (evs @ [Message d])))
      = predMasks (fst (run env s evs)) @ [ev_mask d]"
    by (simp add: run_snoc listener_def)
  show "clicks (fst (run env s (evs @ [Message d]))) = clicks (fst (run env s evs))"
    by (simp add: run_snoc listener_def)
  show "snd (run env s (evs @ [Message d])) = snd (run env s evs)"
    by (simp add: run_snoc)
next
  fix f assume f: "f \<in> set (snd (step env st ev))"
  show "modelData env (requestArgs env (fst (step env st ev))) = Some f"
    using step_posted [OF f] by simp
next
  fix f
  show "length (md_clicks (requestArgs env (fst (step env st ev))))
      = length (clicks (fst (step env st ev)))"
    by (simp add: requestArgs_def)
qed

text \<open>
  C2 as stated fails in the sample session: the first click sends a request with one
  click; after the second click the reply to that first request arrives, and it
  becomes the output although the click list now has two entries.
\<close>

theorem stale_mask_accepted:
  "snd (run demoEnv (initial, []) [CanvasClick demoClick1]) = [demoRequest1] \<and>
   length (md_clicks demoRequest1) = 1 \<and>
   length (clicks (fst (run demoEnv (initial, [])
     [CanvasClick demoClick1, CanvasClick demoClick2, Message (demoReply demoRequest1)]))) = 2 \<and>
   output' (fst (run demoEnv (initial, [])
     [CanvasClick demoClick1, CanvasClick demoClick2, Message (demoReply demoRequest1)]))
     = ev_output (demoReply demoRequest1) \<and>
   ev_output (demoReply demoRequest1) = Some \<lparr> data = [10], dims = [1, 1] \<rparr>"
  by (simp add: demo_defs)

text \<open>
  The theorem of C2 at the sample session's first click and its reply, and at the
  step of the second click.
\<close>

theorem listener_accepts_every_mask_witness:
  "output' (fst (run demoEnv (initial, [])
     ([CanvasClick demoClick1] @ [Message (demoReply demoRequest1)])))
     = Some \<lparr> data = [10], dims = [1, 1] \<rparr> \<and>
   length (clicks (fst (run demoEnv (initial, [])
     ([CanvasClick demoClick1] @ [Message (demoReply demoRequest1)])))) = 1 \<and>
   snd (step demoEnv (initial\<lparr> clicks := [\<lparr> click_x = 10, click_y = 20 \<rparr>] \<rparr>)
     (CanvasClick demoClick2)) = [requestArgs demoEnv
       (initial\<lparr> clicks := [\<lparr> click_x = 10, click_y = 20 \<rparr>, \<lparr> click_x = 30, click_y = 40 \<rparr>] \<rparr>)] \<and>
   length (md_clicks (requestArgs demoEnv
       (initial\<lparr> clicks := [\<lparr> click_x = 10, click_y = 20 \<rparr>, \<lparr> click_x = 30, click_y = 40 \<rparr>] \<rparr>)))
     = 2"
  using listener_accepts_every_mask
    [of demoEnv "(initial, [])" "[CanvasClick demoClick1]" "demoReply demoRequest1"
        "initial\<lparr> clicks := [\<lparr> click_x = 10, click_y = 20 \<rparr>] \<rparr>" "CanvasClick demoClick2"]
  by (simp add: demo_defs)

subsection \<open>C3: undo\<close>

text \<open>
  C3, as the code has it: an undo that leaves the click list non-empty changes
  neither the output nor the mask history, so the display stays what it was (the last
  output received, the undone step's included), and the effect issues a new request
  with the shortened click list and the last mask of the history as feedback. No
  earlier output is cached or shown again.
\<close>

theorem undo_rerequests:
  assumes "1 < length (clicks st)" and "sandboxRef env = Some cw"
  shows "output' (fst (step env st UndoButton)) = output' st \<and>
         predMasks (fst (step env st UndoButton)) = predMasks st \<and>
         clicks (fst (step env st UndoButton)) = butlast (clicks st) \<and>
         snd (step env st UndoButton) =
           (case modelData env (requestArgs env (fst (step env st UndoButton))) of
              None \<Rightarrow> []
            | Some feeds \<Rightarrow> if cw then [feeds] else []) \<and>
         map mc_x (md_clicks (requestArgs env (fst (step env st UndoButton))))
           = map click_x (butlast (clicks st)) \<and>
         map mc_y (md_clicks (requestArgs env (fst (step env st UndoButton))))
           = map click_y (butlast (clicks st)) \<and>
         md_last_pred_mask (requestArgs env (fst (step env st UndoButton))) =
           (if predMasks st = [] then None else Some (last (predMasks st)))"
proof -
  define st' where "st' = undo st"
  have c: "clicks st' = butlast (clicks st)"
    and p: "predMasks st' = predMasks st" and o: "output' st' = output' st"
    by (simp_all add: st'_def undo_butlast)
  have ne: "clicks st' \<noteq> []"
    using assms(1) c by (cases "clicks st" rule: rev_cases) auto
  have s: "step env st UndoButton = editorEffect env st'"
    using assms(1) by (auto simp: st'_def)
  have f: "fst (step env st UndoButton) = st'"
    using s editorEffect_nonempty [OF ne] by simp
  have sn: "snd (step env st UndoButton) =
      (case modelData env (requestArgs env st') of
         None \<Rightarrow> [] | Some feeds \<Rightarrow> if cw then [feeds] else [])"
    using s editorEffect_posted [OF ne assms(2)] by simp
  show ?thesis
    unfolding f sn by (simp add: c p o requestArgs_last requestArgs_clicks)
qed

text \<open>
  C3 as stated fails in the sample session: after two clicks, both replies and an
  undo, the click list is the first click alone, but the output is still the second
  reply's, not the one of the session that only ever sent the first click, and a third
  request has been posted, with the second reply's mask as feedback.
\<close>

theorem undo_keeps_undone_output:
  "clicks (fst (run demoEnv (initial, [])
     [CanvasClick demoClick1, Message (demoReply demoRequest1),
      CanvasClick demoClick2, Message (demoReply demoRequest2), UndoButton]))
     = [\<lparr> click_x = 10, click_y = 20 \<rparr>] \<and>
   output' (fst (run demoEnv (initial, [])
     [CanvasClick demoClick1, Message (demoReply demoRequest1),
      CanvasClick demoClick2, Message (demoReply demoRequest2), UndoButton]))
     = Some \<lparr> data = [10, 30], dims = [2, 1] \<rparr> \<and>
   output' (fst (run demoEnv (initial, [])
     [CanvasClick demoClick1, Message (demoReply demoRequest1)]))
     = Some \<lparr> data = [10], dims = [1, 1] \<rparr> \<and>
   length (snd (run demoEnv (initial, [])
     [CanvasClick demoClick1, Message (demoReply demoRequest1),
      CanvasClick demoClick2, Message (demoReply demoRequest2)])) = 2 \<and>
   length (snd (run demoEnv (initial, [])
     [CanvasClick demoClick1, Message (demoReply demoRequest1),
      CanvasClick demoClick2, Message (demoReply demoRequest2), UndoButton])) = 3 \<and>
   md_last_pred_mask (last (snd (run demoEnv (initial, [])
     [CanvasClick demoClick1, Message (demoReply demoRequest1),
      CanvasClick demoClick2, Message (demoReply demoRequest2), UndoButton])))
     = Some \<lparr> data = [20, 40], dims = [2, 1] \<rparr>"
  by (simp add: demo_defs)

text \<open>The theorem of C3 at the state of the sample session after both replies.\<close>

theorem undo_rerequests_witness:
  "1 < length (clicks demoState2) \<and> sandboxRef demoEnv = Some True \<and>
   output' (fst (step demoEnv demoState2 UndoButton)) = Some \<lparr> data = [10, 30], dims = [2, 1] \<rparr> \<and>
   clicks (fst (step demoEnv demoState2 UndoButton)) = [\<lparr> click_x = 10, click_y = 20 \<rparr>] \<and>
   length (snd (step demoEnv demoState2 UndoButton)) = 1"
proof -
  have h1: "1 < length (clicks demoState2)" by (simp add: demoState2_def)
  have h2: "sandboxRef demoEnv = Some True" by (simp add: demoEnv_def)
  show ?thesis
    using undo_rerequests [OF h1 h2] h1 h2 by (simp add: demo_defs)
qed

subsection \<open>C4: adding a click\<close>

text \<open>
  C4, as the code has it: in edit mode a canvas click at \<open>(x, y)\<close> relative to the
  canvas is divided by the canvas scale \<open>scaleToFit\<close> and multiplied by the preview
  scale (not by \<open>uploadScale\<close>), the result is appended to the click list, and the
  effect hands \<open>modelData\<close> the full click list with the last mask of the history
  (none when the history is empty); the feeds it returns, if any, are posted to the
  iframe.
\<close>

theorem addClick_preview_scaled:
  assumes "mode st = Edit" and "sandboxRef env = Some cw"
  shows "clicks (fst (step env st (CanvasClick e))) =
           clicks st @
             [\<lparr> click_x = ((clientX e - rect_left e) * previewScale (bitmap env)) / scaleToFit env,
                click_y = ((clientY e - rect_top e) * previewScale (bitmap env)) / scaleToFit env \<rparr>] \<and>
         snd (step env st (CanvasClick e)) =
           (case modelData env (requestArgs env (fst (step env st (CanvasClick e)))) of
              None \<Rightarrow> []
            | Some feeds \<Rightarrow> if cw then [feeds] else []) \<and>
         map mc_x (md_clicks (requestArgs env (fst (step env st (CanvasClick e)))))
           = map click_x (clicks st) @
               [((clientX e - rect_left e) * previewScale (bitmap env)) / scaleToFit env] \<and>
         map mc_y (md_clicks (requestArgs env (fst (step env st (CanvasClick e)))))
           = map click_y (clicks st) @
               [((clientY e - rect_top e) * previewScale (bitmap env)) / scaleToFit env] \<and>
         md_last_pred_mask (requestArgs env (fst (step env st (CanvasClick e)))) =
           (if predMasks st = [] then None else Some (last (predMasks st)))"
proof -
  define st' where
    "st' = onMaskClick env (clientX e - rect_left e) (clientY e - rect_top e) st"
  have c: "clicks st' = clicks st @
      [\<lparr> click_x = ((clientX e - rect_left e) * previewScale (bitmap env)) / scaleToFit env,
         click_y = ((clientY e - rect_top e) * previewScale (bitmap env)) / scaleToFit env \<rparr>]"
    and p: "predMasks st' = predMasks st"
    by (simp_all add: st'_def onMaskClick_def Let_def)
  have ne: "clicks st' \<noteq> []"
    using c by simp
  have s: "step env st (CanvasClick e) = editorEffect env st'"
    using assms(1) by (simp add: canvasOnClick_def st'_def)
  have f: "fst (step env st (CanvasClick e)) = st'"
    using s editorEffect_nonempty [OF ne] by simp
  have sn: "snd (step env st (CanvasClick e)) =
      (case modelData env (requestArgs env st') of
         None \<Rightarrow> [] | Some feeds \<Rightarrow> if cw then [feeds] else [])"
    using s editorEffect_posted [OF ne assms(2)] by simp
  show ?thesis
    unfolding f sn by (simp add: c p requestArgs_last requestArgs_clicks)
qed

text \<open>
  C4 as stated fails for the sample bitmap of 500 by 500 pixels, shown at canvas scale
  1: the click at \<open>(10, 20)\<close> is stored as \<open>(10, 20)\<close>, the preview scale being 1, where
  multiplying by \<open>uploadScale = 1024 / 500\<close> would give \<open>(20.48, 40.96)\<close>.
\<close>

theorem click_not_upload_scaled:
  "clicks (fst (step demoEnv initial (CanvasClick demoClick1)))
     = [\<lparr> click_x = 10, click_y = 20 \<rparr>] \<and>
   scaleToFit demoEnv = 1 \<and>
   uploadScale (bitmap demoEnv) = 256 / 125 \<and>
   clicks (fst (step demoEnv initial (CanvasClick demoClick1)))
     \<noteq> [\<lparr> click_x = ((clientX demoClick1 - rect_left demoClick1) / scaleToFit demoEnv)
                       * uploadScale (bitmap demoEnv),
           click_y = ((clientY demoClick1 - rect_top demoClick1) / scaleToFit demoEnv)
                       * uploadScale (bitmap demoEnv) \<rparr>]"
  by (simp add: demo_defs)

text \<open>The theorem of C4 at the second click of the sample session.\<close>

theorem addClick_preview_scaled_witness:
  "mode (fst (step demoEnv initial (Message (demoReply demoRequest1)))) = Edit \<and>
   sandboxRef demoEnv = Some True \<and>
   clicks (fst (step demoEnv (fst (step demoEnv initial (Message (demoReply demoRequest1))))
      (CanvasClick demoClick2))) = [\<lparr> click_x = 30, click_y = 40 \<rparr>] \<and>
   length (snd (step demoEnv (fst (step demoEnv initial (Message (demoReply demoRequest1))))
      (CanvasClick demoClick2))) = 1"
proof -
  have h1: "mode (fst (step demoEnv initial (Message (demoReply demoRequest1)))) = Edit"
    by (simp add: demo_defs)
  have h2: "sandboxRef demoEnv = Some True" by (simp add: demoEnv_def)
  show ?thesis
    using addClick_preview_scaled [OF h1 h2, of demoClick2] h1 h2 by (simp add: demo_defs)
qed

subsection \<open>C5: the empty selection\<close>




subsection \<open>C6: the previous-mask feedback\<close>

text \<open>
  C6, as the code has it: each mask received is appended to the mask history and is
  the feedback of a request built right after; every request posted passes the last
  mask of the history as it stands when the request is built, and nothing when the
  history is empty; no step that posts a request changes the history, and no mask is
  merged with another. The history is emptied when the click list becomes empty, so
  that a mask received before that is no longer passed on.
\<close>

theorem feedback_is_last_of_history:
  "predMasks (fst (step env st (Message d))) = predMasks st @ [ev_mask d] \<and>
   md_last_pred_mask (requestArgs env (fst (step env st (Message d)))) = Some (ev_mask d) \<and>
   (\<forall>f \<in> set (snd (step env st ev)).
      modelData env (requestArgs env (fst (step env st ev))) = Some f \<and>
      predMasks (fst (step env st ev)) = predMasks st \<and>
      md_last_pred_mask (requestArgs env (fst (step env st ev))) =
        (if predMasks st = [] then None else Some (last (predMasks st)))) \<and>
   (sandboxRef env \<noteq> None \<longrightarrow> clicks st \<noteq> [] \<longrightarrow> clicks (fst (step env st ev)) = [] \<longrightarrow>
      predMasks (fst (step env st ev)) = [])"
proof (intro conjI ballI impI)
  show "predMasks (fst (step env st (Message d))) = predMasks st @ [ev_mask d]"
    by (simp add: listener_def)
  show "md_last_pred_mask (requestArgs env (fst (step env st (Message d)))) = Some (ev_mask d)"
    by (simp add: listener_def requestArgs_last)
next
  fix f assume f: "f \<in> set (snd (step env st ev))"
  show "modelData env (requestArgs env (fst (step env st ev))) = Some f"
    and p: "predMasks (fst (step env st ev)) = predMasks st"
    using step_posted [OF f] by simp_all
  show "md_last_pred_mask (requestArgs env (fst (step env st ev))) =
        (if predMasks st = [] then None else Some (last (predMasks st)))"
    by (simp add: requestArgs_last p)
next
  assume "sandboxRef env \<noteq> None" and "clicks st \<noteq> []"
    and "clicks (fst (step env st ev)) = []"
  then show "predMasks (fst (step env st ev)) = []"
    using emptied_by_undo by fastforce
qed

text \<open>
  C6 as stated fails in the sample session: the first click's reply is received and
  its mask appended; an undo then empties the click list; the request of the next click
  passes no mask, although a mask has been received.
\<close>

theorem feedback_reset_after_clear:
  "predMasks (fst (run demoEnv (initial, [])
     [CanvasClick demoClick1, Message (demoReply demoRequest1)]))
     = [\<lparr> data = [20], dims = [1, 1] \<rparr>] \<and>
   length (snd (run demoEnv (initial, [])
     [CanvasClick demoClick1, Message (demoReply demoRequest1), UndoButton,
      CanvasClick demoClick2])) = 2 \<and>
   md_last_pred_mask (last (snd (run demoEnv (initial, [])
     [CanvasClick demoClick1, Message (demoReply demoRequest1), UndoButton,
      CanvasClick demoClick2]))) = None"
  by (simp add: demo_defs)

text \<open>
  The theorem of C6 at the second click of the sample session, the first reply
  received: the one request posted passes that reply's mask.
\<close>

theorem feedback_is_last_of_history_witness:
  "snd (step demoEnv (fst (step demoEnv (initial\<lparr> clicks := [\<lparr> click_x = 10, click_y = 20 \<rparr>] \<rparr>)
           (Message (demoReply demoRequest1)))) (CanvasClick demoClick2)) = [demoRequest2] \<and>
   md_last_pred_mask demoRequest2 = Some \<lparr> data = [20], dims = [1, 1] \<rparr> \<and>
   predMasks (fst (step demoEnv (initial\<lparr> clicks := [\<lparr> click_x = 10, click_y = 20 \<rparr>] \<rparr>)
           (Message (demoReply demoRequest1)))) = [\<lparr> data = [20], dims = [1, 1] \<rparr>]"
  using feedback_is_last_of_history
    [of demoEnv "initial\<lparr> clicks := [\<lparr> click_x = 10, click_y = 20 \<rparr>] \<rparr>"
        "demoReply demoRequest1" "CanvasClick demoClick2"]
  by (simp add: demo_defs)

subsection \<open>C7: composition of the scales\<close>

text \<open>
  C7: for every image extent with positive width and height, the \<open>onnxScale\<close> of the
  \<open>modelScale\<close> object is the preview scale divided by \<open>uploadScale\<close>, both taken
  from the same object, so that a coordinate \<open>p\<close> of the original image mapped to
  model-input space (times \<open>uploadScale\<close>) and on to the mask grid (times
  \<open>onnxScale\<close>) is \<open>p\<close> times the preview scale. Over the reals the equation is exact.
\<close>

theorem onnxScale_composition:
  assumes "0 < width bm" and "0 < height bm"
  shows "ms_onnxScale (modelScale bm) = ms_scale (modelScale bm) / ms_uploadScale (modelScale bm) \<and>
         ms_scale (modelScale bm) = previewScale bm \<and>
         ms_uploadScale (modelScale bm) = uploadScale bm \<and>
         (p * ms_uploadScale (modelScale bm)) * ms_onnxScale (modelScale bm)
           = p * ms_scale (modelScale bm)"
proof -
  have nz: "uploadScale bm \<noteq> 0"
    using uploadScale_pos [OF assms] by simp
  then show ?thesis
    by (simp add: modelScale_def Let_def)
qed

text \<open>The theorem of C7 at a bitmap of 1000 by 500 pixels and the coordinate 3.\<close>

theorem onnxScale_composition_witness:
  "0 < width \<lparr> width = 1000, height = 500 \<rparr> \<and> 0 < height \<lparr> width = 1000, height = 500 \<rparr> \<and>
   ms_onnxScale (modelScale \<lparr> width = 1000, height = 500 \<rparr>) = 125 / 128 \<and>
   (3 * ms_uploadScale (modelScale \<lparr> width = 1000, height = 500 \<rparr>))
      * ms_onnxScale (modelScale \<lparr> width = 1000, height = 500 \<rparr>)
     = 3 * ms_scale (modelScale \<lparr> width = 1000, height = 500 \<rparr>)"
proof -
  have h1: "0 < width \<lparr> width = 1000, height = 500 \<rparr>" by simp
  have h2: "0 < height \<lparr> width = 1000, height = 500 \<rparr>" by simp
  show ?thesis
    using onnxScale_composition [OF h1 h2, of 3]
    by (simp add: modelScale_def previewScale_def IMAGE_SIZE_def uploadScale_def
        UPLOAD_IMAGE_SIZE_def Let_def)
qed

subsection \<open>C8: a grid below the threshold\<close>

text \<open>
  C8: for every well-formed probability grid whose values are all below the
  threshold, the contour extractor returns the empty contour set, which is a result
  and not an error, and the path built from it is empty, so that nothing is there to
  fill. The extractor and the path builder are the ones modelled from the
  specification above.
\<close>

theorem empty_grid_no_contours:
  assumes "length (grid_values g) = grid_width g * grid_height g"
      and "list_all (\<lambda>v. v < threshold) (grid_values g)"
  shows "extractContours threshold g = Inr [] \<and> maskPath threshold s g = Inr []"
  using assms boundaryEdges_below [OF assms]
  by (simp add: extractContours_def maskPath_def buildPath_def)

text \<open>The theorem of C8 at the all-zero grid of 2 by 2 pixels and the threshold 1/2.\<close>

theorem empty_grid_no_contours_witness:
  "length (grid_values \<lparr> grid_values = [0, 0, 0, 0], grid_width = 2, grid_height = 2 \<rparr>)
     = grid_width \<lparr> grid_values = [0, 0, 0, 0], grid_width = 2, grid_height = 2 \<rparr>
       * grid_height \<lparr> grid_values = [0, 0, 0, 0], grid_width = 2, grid_height = 2 \<rparr> \<and>
   list_all (\<lambda>v. v < 1 / 2)
     (grid_values \<lparr> grid_values = [0, 0, 0, 0], grid_width = 2, grid_height = 2 \<rparr>) \<and>
   extractContours (1 / 2) \<lparr> grid_values = [0, 0, 0, 0], grid_width = 2, grid_height = 2 \<rparr>
     = Inr [] \<and>
   maskPath (1 / 2) 1 \<lparr> grid_values = [0, 0, 0, 0], grid_width = 2, grid_height = 2 \<rparr>
     = Inr []"
proof -
  let ?g = "\<lparr> grid_values = [0, 0, 0, 0], grid_width = 2, grid_height = 2 \<rparr>"
  have h1: "length (grid_values ?g) = grid_width ?g * grid_height ?g" by simp
  have h2: "list_all (\<lambda>v. v < 1 / 2) (grid_values ?g)" by simp
  show ?thesis
    using empty_grid_no_contours [OF h1 h2, of 1] h1 h2 by simp
qed

subsection \<open>C9: the scale of the drawn path\<close>

text \<open>
  C9: for every bitmap with positive width and height, the \<open>svgScale\<close> handed to the
  renderer is the reciprocal of \<open>uploadScale\<close>: their product is 1, and a coordinate
  scaled by \<open>uploadScale\<close> and then by \<open>svgScale\<close> is the original coordinate.
  Whenever there is an output, the renderer draws the image under \<open>canvasScale\<close>,
  traces the output's data with \<open>traceOnnxMaskToSVG\<close>, sets the transform
  \<open>canvasScale * svgScale\<close> and fills the traced path under it, in either mode: a
  point of the path at \<open>p * uploadScale\<close> is drawn at \<open>canvasScale * p\<close>, where
  the image has its point \<open>p\<close>. Over the reals the equations are exact.
\<close>

theorem svgScale_reciprocal:
  assumes "0 < width (bitmap env)" and "0 < height (bitmap env)"
  shows "svgScale (bitmap env) * uploadScale (bitmap env) = 1 \<and>
         (p * uploadScale (bitmap env)) * svgScale (bitmap env) = p \<and>
         render traceOnnxMaskToSVG env (st\<lparr> output' := Some t \<rparr>) =
           [Save, ClearRect, SetTransform (scaleToFit env), DrawImage,
            SetTransform (scaleToFit env * svgScale (bitmap env))] @
           (if mode st = Edit
            then [FillStyle ''rgba(0, 0, 255, 0.4)'',
                  GlobalCompositeOperation ''color-dodge'',
                  Fill (traceOnnxMaskToSVG (data t) (index (dims t) 1) (index (dims t) 0))]
            else [FillStyle ''rgba(0, 0, 0, 1)'',
                  GlobalCompositeOperation ''destination-in'',
                  Fill (traceOnnxMaskToSVG (data t) (index (dims t) 1) (index (dims t) 0))]) @
           [Restore] \<and>
         (scaleToFit env * svgScale (bitmap env)) * (p * uploadScale (bitmap env))
           = scaleToFit env * p"
proof (intro conjI)
  show "svgScale (bitmap env) * uploadScale (bitmap env) = 1"
    using assms by (simp add: svgScale_def uploadScale_def UPLOAD_IMAGE_SIZE_def)
  then show "(p * uploadScale (bitmap env)) * svgScale (bitmap env) = p"
    and "(scaleToFit env * svgScale (bitmap env)) * (p * uploadScale (bitmap env))
           = scaleToFit env * p"
    by (simp_all add: mult.commute mult.left_commute)
  show "render traceOnnxMaskToSVG env (st\<lparr> output' := Some t \<rparr>) =
           [Save, ClearRect, SetTransform (scaleToFit env), DrawImage,
            SetTransform (scaleToFit env * svgScale (bitmap env))] @
           (if mode st = Edit
            then [FillStyle ''rgba(0, 0, 255, 0.4)'',
                  GlobalCompositeOperation ''color-dodge'',
                  Fill (traceOnnxMaskToSVG (data t) (index (dims t) 1) (index (dims t) 0))]
            else [FillStyle ''rgba(0, 0, 0, 1)'',
                  GlobalCompositeOperation ''destination-in'',
                  Fill (traceOnnxMaskToSVG (data t) (index (dims t) 1) (index (dims t) 0))]) @
           [Restore]"
    by (simp add: render_def rendererEffect_def Let_def)
qed

text \<open>
  The theorem of C9 at the sample bitmap of 500 by 500 pixels, with an output of two
  values, in edit mode: the path traced from the output is filled under the scale
  \<open>125 / 256\<close>.
\<close>

theorem svgScale_reciprocal_witness:
  "0 < width (bitmap demoEnv) \<and> 0 < height (bitmap demoEnv) \<and>
   svgScale (bitmap demoEnv) = 125 / 256 \<and>
   uploadScale (bitmap demoEnv) = 256 / 125 \<and>
   svgScale (bitmap demoEnv) * uploadScale (bitmap demoEnv) = 1 \<and>
   render demoTrace demoEnv (initial\<lparr> output' := Some \<lparr> data = [10, 30], dims = [2, 1] \<rparr> \<rparr>)
     = [Save, ClearRect, SetTransform 1, DrawImage, SetTransform (125 / 256),
        FillStyle ''rgba(0, 0, 255, 0.4)'', GlobalCompositeOperation ''color-dodge'',
        Fill [10, 30], Restore]"
proof -
  have h1: "0 < width (bitmap demoEnv)" and h2: "0 < height (bitmap demoEnv)"
    by (simp_all add: demoEnv_def)
  have fit: "scaleToFit demoEnv = 1" by (simp add: demo_defs)
  have svg: "svgScale (bitmap demoEnv) = 125 / 256"
    by (simp add: svgScale_def UPLOAD_IMAGE_SIZE_def demoEnv_def)
  show ?thesis
    using svgScale_reciprocal
      [OF h1 h2, where traceOnnxMaskToSVG = demoTrace and st = initial
        and t = "\<lparr> data = [10, 30], dims = [2, 1] \<rparr>"] h1 h2 fit svg
    by (simp add: uploadScale_def UPLOAD_IMAGE_SIZE_def demoEnv_def initial_def
        demoTrace_def)
qed

subsection \<open>C10: canvas clicks in preview mode\<close>

text \<open>
  C10: while the mode is \<open>preview\<close>, the click handler of the canvas returns without
  calling \<open>onMaskClick\<close>: the state (click list, mask history, output, mode) is
  unchanged, no request is posted, and the renderer draws what it drew before.
\<close>

theorem preview_click_noop:
  assumes "mode st = Preview"
  shows "canvasOnClick (mode st) e = None \<and>
         step env st (CanvasClick e) = (st, []) \<and>
         render traceOnnxMaskToSVG env (fst (step env st (CanvasClick e)))
           = render traceOnnxMaskToSVG env st"
  using assms by (simp add: canvasOnClick_def)

text \<open>The theorem of C10 at the sample session's state after both replies, in preview mode.\<close>

theorem preview_click_noop_witness:
  "mode (fst (step demoEnv demoState2 PreviewButton)) = Preview \<and>
   step demoEnv (fst (step demoEnv demoState2 PreviewButton)) (CanvasClick demoClick1)
     = (fst (step demoEnv demoState2 PreviewButton), []) \<and>
   length (clicks (fst (step demoEnv (fst (step demoEnv demoState2 PreviewButton))
     (CanvasClick demoClick1)))) = 2"
proof -
  have h: "mode (fst (step demoEnv demoState2 PreviewButton)) = Preview"
    by (simp add: demoState2_def)
  show ?thesis
    using preview_click_noop [OF h, of demoClick1 demoEnv] h
    by (simp add: demoState2_def canvasOnClick_def)
qed

end
